theory Spec2Isabelle
  imports Main
begin

section \<open>Data model of the user service\<close>

text \<open>
  The service (class \<open>UserService\<close>) keeps its data in a document store. A document
  field that may be missing is an \<open>option\<close>: \<open>None\<close> stands for a field that is
  absent, \<open>undefined\<close> or \<open>null\<close> (the store compares an absent field and \<open>null\<close>
  alike, and the driver sends \<open>undefined\<close> as \<open>null\<close>). A collection is the list of
  its documents in their natural (insertion) order.
\<close>

datatype platform = App | Web | Webmobile

record active_socket =
  socketid :: string
  platform :: platform
  date :: nat

record location =
  state :: "string option"
  district :: "string option"
  assemblyConstituency :: "string option"
  parliamentaryConstituency :: "string option"

text \<open>A \<open>User\<close> document; \<open>u_id\<close> is the field \<open>_id\<close>. The same type serves for
  \<open>Partial<UserDocument>\<close>, where every field may be missing.\<close>

record user =
  u_id :: "string option"
  firebaseId :: "string option"
  phone :: "string option"
  email :: "string option"
  voterId :: "string option"
  emailVerified :: "bool option"
  phoneVerified :: "bool option"
  dateOfBirth :: "string option"
  gender :: "string option"
  u_location :: "location option"
  activeSockets :: "active_socket list option"
  platformOnline :: "platform \<rightharpoonup> int"
  ipGeo :: "string option"
  lastIp :: "string option"

text \<open>A \<open>UserSession\<close> document: the spread of \<open>connected\<close>'s argument, the date and
  the state.\<close>

record user_session =
  s_user :: string
  s_socketid :: string
  s_platform :: platform
  s_date :: nat
  s_state :: "string option"

text \<open>JavaScript truthiness of an optional string: absent and \<open>''\<close> are falsy.\<close>

definition truthy :: "string option \<Rightarrow> bool" where
  "truthy v = (case v of None \<Rightarrow> False | Some s \<Rightarrow> s \<noteq> [])"

subsection \<open>Filters of the document store\<close>

text \<open>
  A filter document is the list of its entries, all of which must hold. An entry is
  \<open>{f: v}\<close> (\<open>Field f (Eq v)\<close>), \<open>{f: {$ne: v}}\<close> (\<open>Field f (Ne v)\<close>),
  \<open>{'activeSockets.socketid': s}\<close>, \<open>{$and: [...]}\<close> or \<open>{$or: [...]}\<close>.
\<close>

datatype path = F_id | FfirebaseId | Fphone | Femail | FvoterId

datatype cond = Eq "string option" | Ne "string option"

datatype entry =
    Field path cond
  | ActiveSocketsSocketid string
  | And "entry list list"
  | Or "entry list list"

type_synonym filter = "entry list"

fun get_field :: "user \<Rightarrow> path \<Rightarrow> string option" where
  "get_field u F_id = u_id u"
| "get_field u FfirebaseId = firebaseId u"
| "get_field u Fphone = phone u"
| "get_field u Femail = email u"
| "get_field u FvoterId = voterId u"

fun holds :: "cond \<Rightarrow> string option \<Rightarrow> bool" where
  "holds (Eq v) x = (x = v)"
| "holds (Ne v) x = (x \<noteq> v)"

definition sockets_of :: "user \<Rightarrow> active_socket list" where
  "sockets_of u = (case activeSockets u of None \<Rightarrow> [] | Some xs \<Rightarrow> xs)"

fun matches_entry :: "user \<Rightarrow> entry \<Rightarrow> bool" where
  "matches_entry u (Field f c) = holds c (get_field u f)"
| "matches_entry u (ActiveSocketsSocketid s) = list_ex (\<lambda>a. socketid a = s) (sockets_of u)"
| "matches_entry u (And qs) = list_all (list_all (matches_entry u)) qs"
| "matches_entry u (Or qs) = list_ex (list_all (matches_entry u)) qs"

definition matches :: "user \<Rightarrow> filter \<Rightarrow> bool" where
  "matches u q = list_all (matches_entry u) q"

text \<open>\<open>Model.exists\<close>, \<open>Model.findOne\<close> and \<open>Model.updateOne\<close>: the first document
  of the collection that matches.\<close>

definition exists :: "filter \<Rightarrow> user list \<Rightarrow> bool" where
  "exists q us = list_ex (\<lambda>u. matches u q) us"

definition findOne :: "filter \<Rightarrow> user list \<Rightarrow> user option" where
  "findOne q us = find (\<lambda>u. matches u q) us"

fun updateOne :: "filter \<Rightarrow> (user \<Rightarrow> user) \<Rightarrow> user list \<Rightarrow> user list" where
  "updateOne q f [] = []"
| "updateOne q f (u # us) = (if matches u q then f u # us else u # updateOne q f us)"

section \<open>Credential uniqueness: \<open>checkCredentials\<close>\<close>

record credentials =
  c_phone :: "string option"
  c_email :: "string option"
  c_voterId :: "string option"
  c_firebaseId :: "string option"
  c_id :: "string option"

text \<open>The three-part clause \<open>{$and: [{f: v}, {f: {$ne: ''}}, {f: {$ne: null}}]}\<close>.\<close>

definition same_nonempty :: "path \<Rightarrow> string option \<Rightarrow> entry" where
  "same_nonempty f v = And [[Field f (Eq v)], [Field f (Ne (Some []))], [Field f (Ne None)]]"

definition credentials_or :: "credentials \<Rightarrow> entry list list" where
  "credentials_or c =
     [[same_nonempty Fphone (c_phone c)], [same_nonempty Femail (c_email c)]]
     @ (if truthy (c_voterId c) then [[same_nonempty FvoterId (c_voterId c)]] else [])"

definition credentials_query :: "credentials \<Rightarrow> filter" where
  "credentials_query c =
     [And ((if truthy (c_firebaseId c) then [[Field FfirebaseId (Ne (c_firebaseId c))]] else [])
         @ (if truthy (c_id c) then [[Field F_id (Ne (c_id c))]] else [])
         @ [[Or (credentials_or c)]])]"

text \<open>The result is the truth value of what \<open>exists\<close> resolves to, which is how
  \<open>create\<close> reads it and what the declared return type says.\<close>

definition checkCredentials :: "user list \<Rightarrow> credentials \<Rightarrow> bool" where
  "checkCredentials us c = exists (credentials_query c) us"

text \<open>\<open>create\<close> passes its \<open>data\<close> object as the \<open>CheckCredentialsDto\<close>.\<close>

definition credentials_of :: "user \<Rightarrow> credentials" where
  "credentials_of d =
     \<lparr>c_phone = phone d, c_email = email d, c_voterId = voterId d,
      c_firebaseId = firebaseId d, c_id = u_id d\<rparr>"

section \<open>Collaborators and the state of the service\<close>

datatype error =
    BadRequestException string
  | ForbiddenException string
  | HttpError
  | TypeError

text \<open>The identity provider's \<open>UserRecord\<close> and the custom claims sent to it.\<close>

record user_record =
  fb_email :: "string option"
  fb_emailVerified :: bool
  fb_phoneNumber :: "string option"

record claims =
  cl_location :: "location option"
  cl_dateOfBirth :: "string option"
  cl_gender :: "string option"

text \<open>
  The identity provider, as the service sees it: \<open>getUser\<close> is \<open>None\<close> when the call
  rejects; \<open>setCustomUserClaims\<close> tells whether the promise it returns resolves.
\<close>

record firebase =
  getUser :: "string option \<Rightarrow> user_record option"
  setCustomUserClaims :: "string option \<Rightarrow> claims \<Rightarrow> bool"

text \<open>
  Every write to a collection and every call to a collaborator is logged, oldest
  first; reads of the service's own collections are not. A call whose promise
  rejects while nothing awaits it and no handler is attached is an unhandled
  rejection: it is recorded in \<open>unhandled\<close>.
\<close>

datatype call =
    Http_get string
  | Firebase_setCustomUserClaims "string option" claims
  | Firebase_getUser "string option"
  | User_create
  | User_updateOne filter
  | User_findOneAndUpdate filter
  | UserSession_create
  | Assembly_findOne "string option"
  | Parliamentary_findOne "string option"
  | District_findOne "string option"
  | State_findOne "string option"

record db =
  users :: "user list"
  sessions :: "user_session list"
  calls :: "call list"
  unhandled :: "call list"

definition log :: "call \<Rightarrow> db \<Rightarrow> db" where
  "log c d = d\<lparr>calls := calls d @ [c]\<rparr>"

text \<open>A call issued without \<open>await\<close>, outside any \<open>try\<close> and with no \<open>catch\<close>:
  \<open>ok\<close> tells whether its promise resolves.\<close>

definition fire_and_forget :: "call \<Rightarrow> bool \<Rightarrow> db \<Rightarrow> db" where
  "fire_and_forget c ok d =
     (if ok then log c d else (log c d)\<lparr>unhandled := unhandled d @ [c]\<rparr>)"

section \<open>Account manager: \<open>create\<close> and \<open>update\<close>\<close>

text \<open>The body of the \<open>try\<close> block of \<open>create\<close>, which assigns to \<open>data\<close>.\<close>

definition set_verified :: "user \<Rightarrow> user_record \<Rightarrow> user" where
  "set_verified data r =
     (let d1 = (if truthy (email data) \<and> fb_emailVerified r
                then data\<lparr>emailVerified := Some True\<rparr> else data)
      in if truthy (phone d1) \<and> fb_phoneNumber r = phone d1
         then d1\<lparr>phoneVerified := Some True\<rparr> else d1)"

text \<open>\<open>userModel.create(data)\<close>: the document made from \<open>data\<close>, with the generated
  \<open>_id\<close> when \<open>data\<close> brings none. The schema of the collection is declared
  elsewhere in the repository; the store is taken to accept the document.\<close>

definition new_document :: "string \<Rightarrow> user \<Rightarrow> user" where
  "new_document oid data =
     data\<lparr>u_id := (case u_id data of None \<Rightarrow> Some oid | Some i \<Rightarrow> Some i)\<rparr>"

text \<open>
  \<open>create\<close> returns the result, the caller's \<open>data\<close> object as the function leaves it,
  and the new state. \<open>setCustomUserClaims\<close> is called before the \<open>try\<close> block, with
  no \<open>await\<close> and no \<open>catch\<close>: when its promise rejects, the rejection is left
  unhandled. \<open>getUser\<close> is awaited inside the \<open>try\<close> block, whose \<open>catch\<close> only
  prints the error.
\<close>

definition create :: "firebase \<Rightarrow> string \<Rightarrow> user \<Rightarrow> db \<Rightarrow> (error + user) \<times> user \<times> db" where
  "create fb oid data d =
     (if exists [Field FfirebaseId (Eq (firebaseId data))] (users d)
      then (Inl (BadRequestException ''User already exists''), data, d)
      else if checkCredentials (users d) (credentials_of data)
      then (Inl (BadRequestException ''User with given credentials already exists''), data, d)
      else
        let data1 = data\<lparr>activeSockets := Some []\<rparr>;
            user = new_document oid data1;
            d1 = log User_create (d\<lparr>users := users d @ [user]\<rparr>);
            c = \<lparr>cl_location = u_location user, cl_dateOfBirth = dateOfBirth user,
                 cl_gender = gender user\<rparr>;
            d2 = fire_and_forget (Firebase_setCustomUserClaims (firebaseId data1) c)
                   (setCustomUserClaims fb (firebaseId data1) c) d1;
            d3 = log (Firebase_getUser (firebaseId data1)) d2;
            data2 = (case getUser fb (firebaseId data1) of
                       None \<Rightarrow> data1
                     | Some r \<Rightarrow> set_verified data1 r)
        in (Inr user, data2, d3))"

text \<open>The update document of \<open>update\<close>: the fields it sets; \<open>None\<close> is a key that the
  document does not have.\<close>

record patch =
  p_phone :: "string option"
  p_email :: "string option"
  p_voterId :: "string option"
  p_emailVerified :: "bool option"
  p_phoneVerified :: "bool option"
  p_dateOfBirth :: "string option"
  p_gender :: "string option"
  p_location :: "location option"

definition set_field :: "'a option \<Rightarrow> 'a option \<Rightarrow> 'a option" where
  "set_field new old = (case new of None \<Rightarrow> old | Some v \<Rightarrow> Some v)"

definition apply_patch :: "patch \<Rightarrow> user \<Rightarrow> user" where
  "apply_patch p u =
     u\<lparr>phone := set_field (p_phone p) (phone u),
       email := set_field (p_email p) (email u),
       voterId := set_field (p_voterId p) (voterId u),
       emailVerified := set_field (p_emailVerified p) (emailVerified u),
       phoneVerified := set_field (p_phoneVerified p) (phoneVerified u),
       dateOfBirth := set_field (p_dateOfBirth p) (dateOfBirth u),
       gender := set_field (p_gender p) (gender u),
       u_location := set_field (p_location p) (u_location u)\<rparr>"

text \<open>The body of the \<open>try\<close> block of \<open>update\<close>.\<close>

definition patch_verified :: "patch \<Rightarrow> user_record \<Rightarrow> patch" where
  "patch_verified data r =
     (let d1 = (if truthy (p_email data) \<and> fb_emailVerified r
                then data\<lparr>p_emailVerified := Some True\<rparr> else data)
      in if truthy (p_phone d1) \<and> fb_phoneNumber r = p_phone d1
         then d1\<lparr>p_phoneVerified := Some True\<rparr> else d1)"

text \<open>\<open>query.firebaseId\<close>: the value of the top-level key; a value that is not a
  string (absent, or an operator object) is no uid and is passed on as \<open>None\<close>.\<close>

fun query_firebaseId :: "filter \<Rightarrow> string option" where
  "query_firebaseId [] = None"
| "query_firebaseId (Field FfirebaseId c # q) = (case c of Eq v \<Rightarrow> v | Ne v \<Rightarrow> None)"
| "query_firebaseId (e # q) = query_firebaseId q"

text \<open>\<open>findOneAndUpdate(query, data).orFail(...)\<close> returns the document as it was
  before the update.\<close>

definition update :: "firebase \<Rightarrow> filter \<Rightarrow> patch \<Rightarrow> db \<Rightarrow> (error + user) \<times> db" where
  "update fb query data d =
     (let d1 = log (Firebase_getUser (query_firebaseId query)) d;
          data1 = (case getUser fb (query_firebaseId query) of
                     None \<Rightarrow> data
                   | Some r \<Rightarrow> patch_verified data r);
          d2 = log (User_findOneAndUpdate query)
                 (d1\<lparr>users := updateOne query (apply_patch data1) (users d1)\<rparr>)
      in case findOne query (users d1) of
           None \<Rightarrow> (Inl (ForbiddenException ''User not exists''), d2)
         | Some u \<Rightarrow> (Inr u, d2))"

section \<open>Constituency resolver: \<open>getGeoByIp\<close>\<close>

text \<open>The geo-IP provider's answer; \<open>None\<close> is a key that the answer does not have.\<close>

record geo =
  country :: "string option"
  region :: "string option"
  city :: "string option"

record assembly_doc =
  a_id :: "string option"
  a_name :: string
  a_parliamentaryConstituency :: "string option"
  a_district :: "string option"

record district_doc =
  d_id :: "string option"
  d_name :: string
  d_state :: "string option"

record named_doc =
  n_id :: "string option"
  n_name :: string

text \<open>
  The four civic services live in other modules of the repository: each
  \<open>findOne\<close> is a parameter, the assembly one a function of the pattern given as
  \<open>$regex\<close>, the others of the \<open>_id\<close> asked for; \<open>None\<close> is \<open>null\<close>.
\<close>

record civic =
  assembly_findOne :: "string option \<Rightarrow> assembly_doc option"
  parliamentary_findOne :: "string option \<Rightarrow> named_doc option"
  district_findOne :: "string option \<Rightarrow> district_doc option"
  state_findOne :: "string option \<Rightarrow> named_doc option"

record geo_by_ip =
  g_assemblyConstituency :: "assembly_doc option"
  g_parliamentaryConstituency :: "named_doc option"
  g_district :: "district_doc option"
  g_state :: "named_doc option"

definition empty_location :: geo_by_ip where
  "empty_location =
     \<lparr>g_assemblyConstituency = None, g_parliamentaryConstituency = None,
      g_district = None, g_state = None\<rparr>"

text \<open>A value inside a template literal.\<close>

definition interpolate :: "string option \<Rightarrow> string" where
  "interpolate v = (case v of None \<Rightarrow> ''undefined'' | Some s \<Rightarrow> s)"

definition ipGeo_of :: "geo \<Rightarrow> string" where
  "ipGeo_of g = ''India, '' @ interpolate (region g) @ '', '' @ interpolate (city g)"

definition is_civic :: "call \<Rightarrow> bool" where
  "is_civic c =
     (case c of Assembly_findOne x \<Rightarrow> True | Parliamentary_findOne x \<Rightarrow> True
      | District_findOne x \<Rightarrow> True | State_findOne x \<Rightarrow> True | _ \<Rightarrow> False)"

text \<open>
  \<open>http\<close> is the geo-IP provider: \<open>None\<close> when the request throws, which
  \<open>getGeoByIp\<close> does not catch. Reading \<open>location.district.state\<close> of a \<open>null\<close>
  district is a \<open>TypeError\<close>.
\<close>

definition getGeoByIp ::
  "(string \<Rightarrow> geo option) \<Rightarrow> civic \<Rightarrow> string \<Rightarrow> string option \<Rightarrow> db \<Rightarrow> (error + geo_by_ip) \<times> db"
where
  "getGeoByIp http civ ip userId d =
     (let d0 = log (Http_get ip) d in
      case http ip of
        None \<Rightarrow> (Inl HttpError, d0)
      | Some g \<Rightarrow>
         (let d1 = (if truthy userId
                    then log (User_updateOne [Field FfirebaseId (Eq userId)])
                           (d0\<lparr>users := updateOne [Field FfirebaseId (Eq userId)]
                                  (\<lambda>u. u\<lparr>ipGeo := Some (ipGeo_of g), lastIp := Some ip\<rparr>)
                                  (users d0)\<rparr>)
                    else d0)
          in if country g \<noteq> Some ''IN'' then (Inr empty_location, d1)
             else
              (let d2 = log (Assembly_findOne (city g)) d1 in
               case assembly_findOne civ (city g) of
                 None \<Rightarrow> (Inr empty_location, d2)
               | Some ac \<Rightarrow>
                  (let pc = parliamentary_findOne civ (a_parliamentaryConstituency ac);
                       d3 = log (Parliamentary_findOne (a_parliamentaryConstituency ac)) d2;
                       di = district_findOne civ (a_district ac);
                       d4 = log (District_findOne (a_district ac)) d3
                   in case di of
                        None \<Rightarrow> (Inl TypeError, d4)
                      | Some dd \<Rightarrow>
                         (let st = state_findOne civ (d_state dd);
                              d5 = log (State_findOne (d_state dd)) d4
                          in (Inr \<lparr>g_assemblyConstituency = Some ac,
                                   g_parliamentaryConstituency = pc,
                                   g_district = Some dd, g_state = st\<rparr>, d5))))))"

section \<open>Presence tracker: \<open>connected\<close> and \<open>disconnected\<close>\<close>

record connect_data =
  cd_user :: string
  cd_socketid :: string
  cd_platform :: platform

text \<open>\<open>$inc\<close> by one; a counter that is absent starts at zero.\<close>

definition inc :: "platform \<Rightarrow> (platform \<rightharpoonup> int) \<Rightarrow> (platform \<rightharpoonup> int)" where
  "inc p m = m(p \<mapsto> (case m p of None \<Rightarrow> 1 | Some n \<Rightarrow> n + 1))"

text \<open>The update document of \<open>connected\<close>: \<open>$push\<close> with \<open>$each\<close>, and \<open>$inc\<close>.\<close>

definition push_socket :: "active_socket \<Rightarrow> user \<Rightarrow> user" where
  "push_socket a u =
     u\<lparr>activeSockets := Some (sockets_of u @ [a]),
       platformOnline := inc (platform a) (platformOnline u)\<rparr>"

text \<open>\<open>user?.location?.state\<close>\<close>

definition state_of :: "user option \<Rightarrow> string option" where
  "state_of u =
     (case u of None \<Rightarrow> None
      | Some v \<Rightarrow> (case u_location v of None \<Rightarrow> None | Some l \<Rightarrow> state l))"

text \<open>\<open>now\<close> is the value of \<open>new Date()\<close>.\<close>

definition connected :: "nat \<Rightarrow> connect_data \<Rightarrow> db \<Rightarrow> db" where
  "connected now data d =
     (if cd_socketid data = [] \<or> cd_user data = [] then d
      else
        let q = [Field FfirebaseId (Eq (Some (cd_user data)))];
            d1 = log (User_updateOne q)
                   (d\<lparr>users := updateOne q
                          (push_socket \<lparr>socketid = cd_socketid data,
                                        platform = cd_platform data, date = now\<rparr>)
                          (users d)\<rparr>);
            user = findOne q (users d1)
        in log UserSession_create
             (d1\<lparr>sessions := sessions d1 @
                    [\<lparr>s_user = cd_user data, s_socketid = cd_socketid data,
                      s_platform = cd_platform data, s_date = now,
                      s_state = state_of user\<rparr>]\<rparr>))"

text \<open>The update document of \<open>disconnected\<close>: \<open>$pull\<close> of the entries with the socket
  ID; a document without the array is left as it is.\<close>

definition pull_socket :: "string \<Rightarrow> user \<Rightarrow> user" where
  "pull_socket s u =
     u\<lparr>activeSockets := map_option (filter (\<lambda>a. socketid a \<noteq> s)) (activeSockets u)\<rparr>"

definition disconnected :: "string \<Rightarrow> db \<Rightarrow> db" where
  "disconnected s d =
     log (User_updateOne [ActiveSocketsSocketid s])
       (d\<lparr>users := updateOne [ActiveSocketsSocketid s] (pull_socket s) (users d)\<rparr>)"

section \<open>Vocabulary of the specification\<close>

text \<open>The existing user that a candidate names as itself, by \<open>firebaseId\<close> or by
  \<open>_id\<close>, when the candidate provides them.\<close>

definition identified_by :: "credentials \<Rightarrow> user \<Rightarrow> bool" where
  "identified_by c u =
     ((truthy (c_firebaseId c) \<and> firebaseId u = c_firebaseId c)
      \<or> (truthy (c_id c) \<and> u_id u = c_id c))"

text \<open>A stored value that is set and equal to the candidate's.\<close>

definition collides :: "string option \<Rightarrow> string option \<Rightarrow> bool" where
  "collides x v = (truthy x \<and> x = v)"

text \<open>An identity provider all of whose calls fail.\<close>

definition failing_firebase :: firebase where
  "failing_firebase = \<lparr>getUser = (\<lambda>uid. None), setCustomUserClaims = (\<lambda>uid c. False)\<rparr>"

text \<open>A patch that changes only \<open>email\<close>.\<close>

definition only_email :: "string \<Rightarrow> patch" where
  "only_email e =
     \<lparr>p_phone = None, p_email = Some e, p_voterId = None, p_emailVerified = None,
      p_phoneVerified = None, p_dateOfBirth = None, p_gender = None, p_location = None\<rparr>"

text \<open>A patch that changes only \<open>phone\<close>.\<close>

definition only_phone :: "string \<Rightarrow> patch" where
  "only_phone n =
     \<lparr>p_phone = Some n, p_email = None, p_voterId = None, p_emailVerified = None,
      p_phoneVerified = None, p_dateOfBirth = None, p_gender = None, p_location = None\<rparr>"

text \<open>The patch that \<open>update\<close> applies is the caller's, but for the two verified flags,
  which may have been set.\<close>

definition same_fields :: "patch \<Rightarrow> patch \<Rightarrow> bool" where
  "same_fields p' p =
     (p_phone p' = p_phone p \<and> p_email p' = p_email p \<and> p_voterId p' = p_voterId p
      \<and> p_dateOfBirth p' = p_dateOfBirth p \<and> p_gender p' = p_gender p
      \<and> p_location p' = p_location p
      \<and> (p_emailVerified p' = p_emailVerified p \<or> p_emailVerified p' = Some True)
      \<and> (p_phoneVerified p' = p_phoneVerified p \<or> p_phoneVerified p' = Some True))"

definition socket_ids :: "user \<Rightarrow> string list" where
  "socket_ids u = map socketid (sockets_of u)"

section \<open>Example data\<close>

definition blank_user :: user where
  "blank_user =
     \<lparr>u_id = None, firebaseId = None, phone = None, email = None, voterId = None,
      emailVerified = None, phoneVerified = None, dateOfBirth = None, gender = None,
      u_location = None, activeSockets = None, platformOnline = Map.empty,
      ipGeo = None, lastIp = None\<rparr>"

definition alice :: user where
  "alice = blank_user\<lparr>u_id := Some ''1'', firebaseId := Some ''fa'',
     phone := Some ''9990001111'', email := Some ''a@x.in'', activeSockets := Some []\<rparr>"

definition bob :: user where
  "bob = blank_user\<lparr>u_id := Some ''2'', firebaseId := Some ''fb'',
     email := Some ''b@x.in'', activeSockets := Some []\<rparr>"

definition ex_db :: db where
  "ex_db = \<lparr>users = [alice, bob], sessions = [], calls = [], unhandled = []\<rparr>"

definition no_credentials :: credentials where
  "no_credentials =
     \<lparr>c_phone = None, c_email = None, c_voterId = None, c_firebaseId = None, c_id = None\<rparr>"

text \<open>A provider account whose verified address is \<open>a@x.in\<close>.\<close>

definition verified_elsewhere :: user_record where
  "verified_elsewhere =
     \<lparr>fb_email = Some ''a@x.in'', fb_emailVerified = True,
      fb_phoneNumber = Some ''9990001111''\<rparr>"

definition ex_firebase :: firebase where
  "ex_firebase =
     \<lparr>getUser = (\<lambda>uid. Some verified_elsewhere), setCustomUserClaims = (\<lambda>uid c. True)\<rparr>"

definition by_firebaseId :: "string \<Rightarrow> filter" where
  "by_firebaseId v = [Field FfirebaseId (Eq (Some v))]"

definition geo_us :: geo where
  "geo_us = \<lparr>country = Some ''US'', region = Some ''California'', city = Some ''Mountain View''\<rparr>"

definition geo_in :: geo where
  "geo_in = \<lparr>country = Some ''IN'', region = Some ''Kerala'', city = Some ''Kochi''\<rparr>"

definition ex_http :: "string \<Rightarrow> geo option" where
  "ex_http ip =
     (if ip = ''8.8.8.8'' then Some geo_us else if ip = ''1.2.3.4'' then Some geo_in else None)"

text \<open>Civic stores in which nothing is found.\<close>

definition no_civic :: civic where
  "no_civic =
     \<lparr>assembly_findOne = (\<lambda>c. None), parliamentary_findOne = (\<lambda>i. None),
      district_findOne = (\<lambda>i. None), state_findOne = (\<lambda>i. None)\<rparr>"

definition connect_a :: connect_data where
  "connect_a = \<lparr>cd_user = ''fa'', cd_socketid = ''s1'', cd_platform = App\<rparr>"

section \<open>The store\<close>

lemmas store_defs = blank_user_def alice_def bob_def ex_db_def

lemma updateOne_first:
  "\<not> list_ex (\<lambda>x. matches x q) xs \<Longrightarrow> matches u q \<Longrightarrow>
   updateOne q f (xs @ u # ys) = xs @ f u # ys"
  by (induction xs) auto

lemma updateOne_none: "\<not> list_ex (\<lambda>x. matches x q) us \<Longrightarrow> updateOne q f us = us"
  by (induction us) auto

lemma findOne_first:
  "\<not> list_ex (\<lambda>x. matches x q) xs \<Longrightarrow> matches u q \<Longrightarrow> findOne q (xs @ u # ys) = Some u"
  by (induction xs) (auto simp: findOne_def)

lemma findOne_none: "\<not> list_ex (\<lambda>x. matches x q) us \<Longrightarrow> findOne q us = None"
  by (induction us) (auto simp: findOne_def)

lemma exists_iff: "exists q us = (\<exists>u \<in> set us. matches u q)"
  by (simp add: exists_def list_ex_iff)

lemma findOne_None_iff: "(findOne q us = None) = (\<not> exists q us)"
  by (auto simp: findOne_def exists_def find_None_iff list_ex_iff)

lemma matches_firebaseId: "matches u [Field FfirebaseId (Eq v)] = (firebaseId u = v)"
  by (simp add: matches_def)

lemma exists_firebaseId:
  "exists [Field FfirebaseId (Eq v)] us = (\<exists>u \<in> set us. firebaseId u = v)"
  by (simp add: exists_def list_ex_iff matches_firebaseId)

lemma no_match_firebaseId:
  "(\<forall>x \<in> set xs. firebaseId x \<noteq> v) \<Longrightarrow>
   \<not> list_ex (\<lambda>x. matches x [Field FfirebaseId (Eq v)]) xs"
  by (simp add: list_ex_iff matches_firebaseId)

lemma matches_socketid:
  "matches u [ActiveSocketsSocketid s] = list_ex (\<lambda>a. socketid a = s) (sockets_of u)"
  by (simp add: matches_def)

lemma users_fire_and_forget: "users (fire_and_forget c ok d) = users d"
  by (simp add: fire_and_forget_def log_def)

lemma unhandled_fire_and_forget:
  "unhandled (fire_and_forget c ok d) = unhandled d @ (if ok then [] else [c])"
  by (simp add: fire_and_forget_def log_def)

section \<open>Credential uniqueness\<close>

lemma matches_same_nonempty:
  "matches_entry u (same_nonempty f v) = collides (get_field u f) v"
  by (auto simp: same_nonempty_def collides_def truthy_def split: option.splits)

lemma matches_credentials_query:
  "matches u (credentials_query c) =
     (\<not> identified_by c u \<and>
       (collides (phone u) (c_phone c) \<or> collides (email u) (c_email c)
        \<or> (truthy (c_voterId c) \<and> collides (voterId u) (c_voterId c))))"
  by (auto simp: matches_def credentials_query_def credentials_or_def identified_by_def
      matches_same_nonempty)

lemma checkCredentials_iff:
  "checkCredentials us c =
     (\<exists>u \<in> set us. \<not> identified_by c u \<and>
       (collides (phone u) (c_phone c) \<or> collides (email u) (c_email c)
        \<or> (truthy (c_voterId c) \<and> collides (voterId u) (c_voterId c))))"
  by (simp add: checkCredentials_def exists_def list_ex_iff matches_credentials_query)

text \<open>
  Claim C1. \<open>checkCredentials\<close> is true exactly when some existing user, other than
  the one the candidate names by \<open>firebaseId\<close> or \<open>_id\<close> when it provides them, has a
  phone that is set and equal to the candidate's, or such an email, or, when the
  candidate supplies a voter ID, such a voter ID. Values that are empty or absent
  never collide: the result is false when the candidate's phone, email and voter ID
  are all empty or absent, and also when those of every stored user are.
\<close>

theorem checkCredentials_collision_iff:
  "(checkCredentials us c =
      (\<exists>u \<in> set us. \<not> identified_by c u \<and>
        (collides (phone u) (c_phone c) \<or> collides (email u) (c_email c)
         \<or> (truthy (c_voterId c) \<and> collides (voterId u) (c_voterId c)))))
   \<and> (\<not> truthy (c_phone c) \<and> \<not> truthy (c_email c) \<and> \<not> truthy (c_voterId c) \<longrightarrow>
        \<not> checkCredentials us c)
   \<and> ((\<forall>u \<in> set us. \<not> truthy (phone u) \<and> \<not> truthy (email u) \<and> \<not> truthy (voterId u)) \<longrightarrow>
        \<not> checkCredentials us c)"
proof (intro conjI impI)
  show "checkCredentials us c =
      (\<exists>u \<in> set us. \<not> identified_by c u \<and>
        (collides (phone u) (c_phone c) \<or> collides (email u) (c_email c)
         \<or> (truthy (c_voterId c) \<and> collides (voterId u) (c_voterId c))))"
    by (rule checkCredentials_iff)
next
  assume "\<not> truthy (c_phone c) \<and> \<not> truthy (c_email c) \<and> \<not> truthy (c_voterId c)"
  then show "\<not> checkCredentials us c"
    by (auto simp: checkCredentials_iff collides_def)
next
  assume "\<forall>u \<in> set us. \<not> truthy (phone u) \<and> \<not> truthy (email u) \<and> \<not> truthy (voterId u)"
  then show "\<not> checkCredentials us c"
    by (auto simp: checkCredentials_iff collides_def)
qed

text \<open>
  Claim C1 at work: a second candidate with Alice's phone collides; Alice herself,
  named by her \<open>firebaseId\<close>, does not; a candidate whose only value is an empty email
  does not; and an empty phone does not collide with a stored empty phone.
\<close>

theorem checkCredentials_collision_iff_witness:
  "checkCredentials [alice, bob] (no_credentials\<lparr>c_phone := Some ''9990001111''\<rparr>)
   \<and> \<not> checkCredentials [alice, bob]
         (no_credentials\<lparr>c_phone := Some ''9990001111'', c_firebaseId := Some ''fa''\<rparr>)
   \<and> \<not> truthy (c_email (no_credentials\<lparr>c_email := Some []\<rparr>))
   \<and> \<not> checkCredentials [alice, bob] (no_credentials\<lparr>c_email := Some []\<rparr>)
   \<and> \<not> checkCredentials [blank_user, blank_user\<lparr>phone := Some []\<rparr>]
         (no_credentials\<lparr>c_phone := Some []\<rparr>)"
  using checkCredentials_collision_iff
      [of "[alice, bob]" "no_credentials\<lparr>c_phone := Some ''9990001111''\<rparr>"]
    checkCredentials_collision_iff
      [of "[alice, bob]"
          "no_credentials\<lparr>c_phone := Some ''9990001111'', c_firebaseId := Some ''fa''\<rparr>"]
    checkCredentials_collision_iff [of "[alice, bob]" "no_credentials\<lparr>c_email := Some []\<rparr>"]
    checkCredentials_collision_iff
      [of "[blank_user, blank_user\<lparr>phone := Some []\<rparr>]" "no_credentials\<lparr>c_phone := Some []\<rparr>"]
  by (simp add: store_defs no_credentials_def identified_by_def collides_def truthy_def)

section \<open>Account creation\<close>

text \<open>
  Claim C2. \<open>create\<close> fails with the duplicate-identity error (\<open>User already exists\<close>)
  when an account with the \<open>firebaseId\<close> of \<open>data\<close> exists; past that check it fails
  with the duplicate-credential error when \<open>checkCredentials\<close> reports a match; in both
  cases the state is the one before the call, so no record is inserted. Otherwise it
  appends one record, whose \<open>activeSockets\<close> is the empty list.
\<close>

theorem create_rejects_duplicates:
  "((\<exists>u \<in> set (users d). firebaseId u = firebaseId data) \<longrightarrow>
      create fb oid data d = (Inl (BadRequestException ''User already exists''), data, d))
   \<and> (\<not> (\<exists>u \<in> set (users d). firebaseId u = firebaseId data)
       \<and> checkCredentials (users d) (credentials_of data) \<longrightarrow>
      create fb oid data d =
        (Inl (BadRequestException ''User with given credentials already exists''), data, d))
   \<and> (\<not> (\<exists>u \<in> set (users d). firebaseId u = firebaseId data)
       \<and> \<not> checkCredentials (users d) (credentials_of data) \<longrightarrow>
      (\<exists>u. fst (create fb oid data d) = Inr u
           \<and> users (snd (snd (create fb oid data d))) = users d @ [u]
           \<and> activeSockets u = Some []))"
  by (simp add: create_def exists_firebaseId Let_def log_def users_fire_and_forget
      new_document_def)

text \<open>
  Claim C2 at work, on the store of Alice and Bob: Alice's \<open>firebaseId\<close> again, a new
  identity with Alice's phone, and a new identity with nothing else.
\<close>

theorem create_rejects_duplicates_witness:
  "create ex_firebase ''3'' (blank_user\<lparr>firebaseId := Some ''fa''\<rparr>) ex_db
     = (Inl (BadRequestException ''User already exists''),
        blank_user\<lparr>firebaseId := Some ''fa''\<rparr>, ex_db)
   \<and> create ex_firebase ''3''
        (blank_user\<lparr>firebaseId := Some ''fc'', phone := Some ''9990001111''\<rparr>) ex_db
     = (Inl (BadRequestException ''User with given credentials already exists''),
        blank_user\<lparr>firebaseId := Some ''fc'', phone := Some ''9990001111''\<rparr>, ex_db)
   \<and> map activeSockets (users (snd (snd
         (create ex_firebase ''3'' (blank_user\<lparr>firebaseId := Some ''fc''\<rparr>) ex_db))))
     = [Some [], Some [], Some []]"
  using create_rejects_duplicates
      [of ex_db "blank_user\<lparr>firebaseId := Some ''fa''\<rparr>" ex_firebase "''3''"]
    create_rejects_duplicates
      [of ex_db "blank_user\<lparr>firebaseId := Some ''fc'', phone := Some ''9990001111''\<rparr>"
          ex_firebase "''3''"]
    create_rejects_duplicates
      [of ex_db "blank_user\<lparr>firebaseId := Some ''fc''\<rparr>" ex_firebase "''3''"]
  by (auto simp: store_defs checkCredentials_def exists_def credentials_query_def credentials_or_def
      same_nonempty_def matches_def truthy_def credentials_of_def)

text \<open>What \<open>create\<close> returns and stores does not depend on the identity provider.\<close>

lemma create_returns_new_user:
  assumes "\<not> (\<exists>u \<in> set (users d). firebaseId u = firebaseId data)"
    and "\<not> checkCredentials (users d) (credentials_of data)"
  shows "fst (create fb oid data d) = Inr (new_document oid (data\<lparr>activeSockets := Some []\<rparr>))
       \<and> users (snd (snd (create fb oid data d)))
           = users d @ [new_document oid (data\<lparr>activeSockets := Some []\<rparr>)]"
  using assms
  by (simp add: create_def exists_firebaseId Let_def log_def users_fire_and_forget)

text \<open>A rejection of \<open>getUser\<close> is caught; one of \<open>setCustomUserClaims\<close> is not.\<close>

lemma create_unhandled:
  assumes "\<not> (\<exists>u \<in> set (users d). firebaseId u = firebaseId data)"
    and "\<not> checkCredentials (users d) (credentials_of data)"
  shows "unhandled (snd (snd (create fb oid data d))) =
           unhandled d @
           (if setCustomUserClaims fb (firebaseId data)
                 \<lparr>cl_location = u_location data, cl_dateOfBirth = dateOfBirth data,
                  cl_gender = gender data\<rparr>
            then []
            else [Firebase_setCustomUserClaims (firebaseId data)
                    \<lparr>cl_location = u_location data, cl_dateOfBirth = dateOfBirth data,
                     cl_gender = gender data\<rparr>])"
  using assms
  by (simp add: create_def exists_firebaseId Let_def log_def unhandled_fire_and_forget
      new_document_def)

text \<open>
  Claim C5 says that \<open>create\<close> returns the newly created user even when every call
  to the identity provider fails, the failures being caught. On the store of Alice
  and Bob, with a provider all of whose calls fail, \<open>create\<close> does return the new
  user, and the rejection of \<open>getUser\<close> is caught; but the rejection of
  \<open>setCustomUserClaims\<close> is not caught: where there was no unhandled rejection
  before the call, there is one after it.
\<close>

theorem create_leaves_claims_rejection_unhandled:
  "fst (create failing_firebase ''3'' (blank_user\<lparr>firebaseId := Some ''fc''\<rparr>) ex_db)
     = Inr (blank_user\<lparr>u_id := Some ''3'', firebaseId := Some ''fc'', activeSockets := Some []\<rparr>)
   \<and> unhandled ex_db = []
   \<and> unhandled (snd (snd
        (create failing_firebase ''3'' (blank_user\<lparr>firebaseId := Some ''fc''\<rparr>) ex_db)))
     = [Firebase_setCustomUserClaims (Some ''fc'')
          \<lparr>cl_location = None, cl_dateOfBirth = None, cl_gender = None\<rparr>]"
  using create_returns_new_user
      [of ex_db "blank_user\<lparr>firebaseId := Some ''fc''\<rparr>" failing_firebase "''3''"]
    create_unhandled
      [of ex_db "blank_user\<lparr>firebaseId := Some ''fc''\<rparr>" failing_firebase "''3''"]
  by (simp add: store_defs failing_firebase_def checkCredentials_def exists_def
      credentials_query_def credentials_or_def same_nonempty_def matches_def truthy_def
      credentials_of_def new_document_def)

section \<open>Account update\<close>

lemma fst_update:
  "fst (update fb q p d) =
     (case findOne q (users d) of
        None \<Rightarrow> Inl (ForbiddenException ''User not exists'') | Some u \<Rightarrow> Inr u)"
  by (simp add: update_def Let_def log_def split: option.splits)

lemma users_update:
  "users (snd (update fb q p d)) =
     updateOne q (apply_patch (case getUser fb (query_firebaseId q) of
                                 None \<Rightarrow> p | Some r \<Rightarrow> patch_verified p r)) (users d)"
  by (simp add: update_def Let_def log_def split: option.splits)

lemma same_fields_verified: "same_fields (patch_verified p r) p"
  by (simp add: same_fields_def patch_verified_def Let_def)

lemma same_fields_refl: "same_fields p p"
  by (simp add: same_fields_def)

text \<open>
  Claim C3 says that a patch changing only \<open>email\<close> sets \<open>emailVerified\<close> when the new
  email equals the identity provider's verified email, and leaves it unset or false
  when it does not. \<open>update\<close> compares the provider's phone number with the new phone
  but never the provider's email with the new email. Alice's \<open>emailVerified\<close> is
  unset and the provider's verified address for her account is \<open>a@x.in\<close>: a patch
  changing only her email to \<open>new@x.in\<close>, which does not match, leaves her record
  with \<open>emailVerified\<close> true. For the phone the comparison is made: the provider's
  number sets \<open>phoneVerified\<close>, another number does not.
\<close>

theorem update_marks_unmatched_email_verified:
  "emailVerified alice = None
   \<and> fb_email verified_elsewhere \<noteq> Some ''new@x.in''
   \<and> getUser ex_firebase (query_firebaseId (by_firebaseId ''fa'')) = Some verified_elsewhere
   \<and> map emailVerified
        (users (snd (update ex_firebase (by_firebaseId ''fa'') (only_email ''new@x.in'') ex_db)))
      = [Some True, None]
   \<and> map email
        (users (snd (update ex_firebase (by_firebaseId ''fa'') (only_email ''new@x.in'') ex_db)))
      = [Some ''new@x.in'', Some ''b@x.in'']
   \<and> map phoneVerified
        (users (snd (update ex_firebase (by_firebaseId ''fa'') (only_phone ''9990001111'') ex_db)))
      = [Some True, None]
   \<and> map phoneVerified
        (users (snd (update ex_firebase (by_firebaseId ''fa'') (only_phone ''5550002222'') ex_db)))
      = [None, None]"
  by (simp add: store_defs ex_firebase_def verified_elsewhere_def by_firebaseId_def
      users_update Let_def matches_def only_email_def only_phone_def patch_verified_def
      apply_patch_def set_field_def truthy_def)

text \<open>
  Claim C4. \<open>update\<close> fails exactly when no user matches the query, and then with the
  error \<open>User not exists\<close>. When a user matches, the first such, \<open>update\<close> raises no
  error, returns that user, and replaces it by the user with the patch applied; the
  patch applied is the caller's but for the verified flags that \<open>update\<close> may have set.
\<close>

theorem update_not_found_iff:
  "((\<exists>e. fst (update fb q p d) = Inl e) = (\<not> (\<exists>u \<in> set (users d). matches u q)))
   \<and> (\<not> (\<exists>u \<in> set (users d). matches u q) \<longrightarrow>
        fst (update fb q p d) = Inl (ForbiddenException ''User not exists''))
   \<and> (\<forall>xs u ys. users d = xs @ u # ys \<and> \<not> list_ex (\<lambda>x. matches x q) xs \<and> matches u q \<longrightarrow>
        fst (update fb q p d) = Inr u
        \<and> (\<exists>p'. same_fields p' p
              \<and> users (snd (update fb q p d)) = xs @ apply_patch p' u # ys))"
proof (intro conjI allI impI)
  show "(\<exists>e. fst (update fb q p d) = Inl e) = (\<not> (\<exists>u \<in> set (users d). matches u q))"
    using findOne_None_iff [of q "users d"]
    by (auto simp: fst_update exists_iff split: option.splits)
next
  assume "\<not> (\<exists>u \<in> set (users d). matches u q)"
  then have "findOne q (users d) = None"
    by (simp add: findOne_None_iff exists_iff)
  then show "fst (update fb q p d) = Inl (ForbiddenException ''User not exists'')"
    by (simp add: fst_update)
next
  fix xs u ys
  assume h: "users d = xs @ u # ys \<and> \<not> list_ex (\<lambda>x. matches x q) xs \<and> matches u q"
  then show "fst (update fb q p d) = Inr u"
    by (simp add: fst_update findOne_first)
  let ?p = "case getUser fb (query_firebaseId q) of None \<Rightarrow> p | Some r \<Rightarrow> patch_verified p r"
  have "same_fields ?p p"
    by (simp add: same_fields_verified same_fields_refl split: option.splits)
  moreover have "users (snd (update fb q p d)) = xs @ apply_patch ?p u # ys"
    using h by (simp add: users_update updateOne_first)
  ultimately show "\<exists>p'. same_fields p' p
      \<and> users (snd (update fb q p d)) = xs @ apply_patch p' u # ys"
    by blast
qed

text \<open>Claim C4 at work: a query that matches nobody, and one that matches Alice.\<close>

theorem update_not_found_iff_witness:
  "fst (update ex_firebase (by_firebaseId ''zz'') (only_email ''n@x.in'') ex_db)
     = Inl (ForbiddenException ''User not exists'')
   \<and> fst (update ex_firebase (by_firebaseId ''fa'') (only_email ''n@x.in'') ex_db) = Inr alice
   \<and> map email
       (users (snd (update ex_firebase (by_firebaseId ''fa'') (only_email ''n@x.in'') ex_db)))
     = [Some ''n@x.in'', Some ''b@x.in'']"
  using update_not_found_iff
      [of ex_firebase "by_firebaseId ''zz''" "only_email ''n@x.in''" ex_db]
    update_not_found_iff
      [of ex_firebase "by_firebaseId ''fa''" "only_email ''n@x.in''" ex_db,
        THEN conjunct2, THEN conjunct2, rule_format, of "[]" alice "[bob]"]
  by (auto simp: store_defs by_firebaseId_def matches_def same_fields_def apply_patch_def
      set_field_def only_email_def)

section \<open>Constituency resolution\<close>

lemma not_civic: "\<not> is_civic (Http_get ip)" "\<not> is_civic (User_updateOne q)"
  by (simp_all add: is_civic_def)

lemma civic_calls: "is_civic (Assembly_findOne a)" "is_civic (Parliamentary_findOne a)"
  "is_civic (District_findOne a)" "is_civic (State_findOne a)"
  by (simp_all add: is_civic_def)

lemma users_getGeoByIp:
  "http ip = Some g \<Longrightarrow>
   users (snd (getGeoByIp http civ ip userId d)) =
     (if truthy userId
      then updateOne [Field FfirebaseId (Eq userId)]
             (\<lambda>u. u\<lparr>ipGeo := Some (ipGeo_of g), lastIp := Some ip\<rparr>) (users d)
      else users d)"
  by (simp add: getGeoByIp_def Let_def log_def split: option.splits)

lemma calls_getGeoByIp:
  "http ip = Some g \<Longrightarrow>
   \<exists>rest. calls (snd (getGeoByIp http civ ip userId d)) =
     calls d @ Http_get ip #
       (if truthy userId then [User_updateOne [Field FfirebaseId (Eq userId)]] else []) @ rest
     \<and> list_all is_civic rest"
  by (simp add: getGeoByIp_def Let_def log_def civic_calls split: option.splits)

text \<open>
  Claim C6. When the geo lookup answers with a country other than \<open>IN\<close>, \<open>getGeoByIp\<close>
  returns the empty location, without error, and queries no civic store: the calls
  it adds are the lookup and, with a user ID, the write to the user record.
\<close>

theorem getGeoByIp_foreign_country:
  assumes "http ip = Some g" and "country g \<noteq> Some ''IN''"
  shows "fst (getGeoByIp http civ ip userId d) = Inr empty_location
       \<and> calls (snd (getGeoByIp http civ ip userId d))
           = calls d @ Http_get ip #
               (if truthy userId then [User_updateOne [Field FfirebaseId (Eq userId)]] else [])
       \<and> filter is_civic (calls (snd (getGeoByIp http civ ip userId d)))
           = filter is_civic (calls d)"
  using assms by (simp add: getGeoByIp_def Let_def log_def not_civic)

text \<open>Claim C6 at work: an address in the United States, looked up for Alice.\<close>

theorem getGeoByIp_foreign_country_witness:
  "ex_http ''8.8.8.8'' = Some geo_us \<and> country geo_us \<noteq> Some ''IN''
   \<and> fst (getGeoByIp ex_http no_civic ''8.8.8.8'' (Some ''fa'') ex_db) = Inr empty_location
   \<and> calls (snd (getGeoByIp ex_http no_civic ''8.8.8.8'' (Some ''fa'') ex_db))
       = [Http_get ''8.8.8.8'', User_updateOne (by_firebaseId ''fa'')]"
  using getGeoByIp_foreign_country [of ex_http "''8.8.8.8''" geo_us no_civic "Some ''fa''" ex_db]
  by (simp add: ex_http_def geo_us_def store_defs by_firebaseId_def truthy_def)

text \<open>
  Claim C7, amended. For every IP whose geo lookup answers and every user ID given,
  \<open>getGeoByIp\<close> writes the raw geo string and the IP to the user record with that
  \<open>firebaseId\<close>. The write
  is the same whatever the country and whatever the civic stores hold, so it does not
  depend on the location returned (nor on the resolution failing), and it precedes
  every civic query: the calls added are the lookup, the write, and then civic
  queries only.
\<close>

theorem getGeoByIp_records_geo_first:
  assumes "http ip = Some g" and "truthy userId"
  shows "users (snd (getGeoByIp http civ ip userId d))
           = updateOne [Field FfirebaseId (Eq userId)]
               (\<lambda>u. u\<lparr>ipGeo := Some (ipGeo_of g), lastIp := Some ip\<rparr>) (users d)
       \<and> (\<exists>rest. calls (snd (getGeoByIp http civ ip userId d))
             = calls d @ [Http_get ip, User_updateOne [Field FfirebaseId (Eq userId)]] @ rest
             \<and> list_all is_civic rest)
       \<and> (\<forall>xs u ys. users d = xs @ u # ys \<and> (\<forall>x \<in> set xs. firebaseId x \<noteq> userId)
              \<and> firebaseId u = userId \<longrightarrow>
            users (snd (getGeoByIp http civ ip userId d))
              = xs @ u\<lparr>ipGeo := Some (ipGeo_of g), lastIp := Some ip\<rparr> # ys)"
proof (intro conjI allI impI)
  show "users (snd (getGeoByIp http civ ip userId d))
           = updateOne [Field FfirebaseId (Eq userId)]
               (\<lambda>u. u\<lparr>ipGeo := Some (ipGeo_of g), lastIp := Some ip\<rparr>) (users d)"
    using assms by (simp add: users_getGeoByIp)
next
  show "\<exists>rest. calls (snd (getGeoByIp http civ ip userId d))
             = calls d @ [Http_get ip, User_updateOne [Field FfirebaseId (Eq userId)]] @ rest
             \<and> list_all is_civic rest"
    using calls_getGeoByIp [of http ip g civ userId d] assms by simp
next
  fix xs u ys
  assume "users d = xs @ u # ys \<and> (\<forall>x \<in> set xs. firebaseId x \<noteq> userId) \<and> firebaseId u = userId"
  then have "users d = xs @ u # ys"
    and n: "\<not> list_ex (\<lambda>x. matches x [Field FfirebaseId (Eq userId)]) xs"
    and m: "matches u [Field FfirebaseId (Eq userId)]"
    by (simp_all add: list_ex_iff matches_firebaseId)
  then show "users (snd (getGeoByIp http civ ip userId d))
              = xs @ u\<lparr>ipGeo := Some (ipGeo_of g), lastIp := Some ip\<rparr> # ys"
    using assms by (simp add: users_getGeoByIp updateOne_first [OF n m])
qed

text \<open>
  Claim C7, amended, at work: an address in India whose city matches no assembly constituency;
  the location returned is empty and Bob's record carries the geo string and the IP.
\<close>

theorem getGeoByIp_records_geo_first_witness:
  "ex_http ''1.2.3.4'' = Some geo_in \<and> truthy (Some ''fb'')
   \<and> fst (getGeoByIp ex_http no_civic ''1.2.3.4'' (Some ''fb'') ex_db) = Inr empty_location
   \<and> users (snd (getGeoByIp ex_http no_civic ''1.2.3.4'' (Some ''fb'') ex_db))
       = [alice, bob\<lparr>ipGeo := Some ''India, Kerala, Kochi'', lastIp := Some ''1.2.3.4''\<rparr>]"
  using getGeoByIp_records_geo_first
      [of ex_http "''1.2.3.4''" geo_in "Some ''fb''" no_civic ex_db,
        THEN conjunct2, THEN conjunct2, rule_format, of "[alice]" bob "[]"]
  by (simp add: ex_http_def geo_in_def no_civic_def store_defs truthy_def ipGeo_of_def
      interpolate_def getGeoByIp_def Let_def log_def)

text \<open>
  Claim C7 as first stated, for every IP, fails: the request to the geo-IP provider
  is outside any \<open>try\<close>, so when it throws for an IP, \<open>getGeoByIp\<close> throws with it
  before any write, and the record of the user ID given keeps no geo string and no
  IP.
\<close>

theorem getGeoByIp_lookup_throws_counterexample:
  "ex_http ''0.0.0.0'' = None \<and> truthy (Some ''fa'') \<and> firebaseId alice = Some ''fa''
   \<and> fst (getGeoByIp ex_http no_civic ''0.0.0.0'' (Some ''fa'') ex_db) = Inl HttpError
   \<and> users (snd (getGeoByIp ex_http no_civic ''0.0.0.0'' (Some ''fa'') ex_db)) = [alice, bob]
   \<and> ipGeo alice = None \<and> lastIp alice = None"
  by (simp add: ex_http_def store_defs truthy_def getGeoByIp_def Let_def log_def)

text \<open>
  Claim C10. When the geo lookup answers and a user ID is given, the geo string
  written to the user record with that \<open>firebaseId\<close> is \<open>India, \<close> followed by the
  provider's region, a comma and a space, and the provider's city, whatever country
  the provider resolved (a region or city missing from the answer is interpolated as
  \<open>undefined\<close>).
\<close>

theorem getGeoByIp_ipGeo_fixed_prefix:
  assumes "http ip = Some g" and "truthy userId"
    and "users d = xs @ u # ys" and "\<forall>x \<in> set xs. firebaseId x \<noteq> userId"
    and "firebaseId u = userId"
  shows "\<exists>u'. users (snd (getGeoByIp http civ ip userId d)) = xs @ u' # ys
           \<and> ipGeo u' = Some (''India, '' @ interpolate (region g) @ '', '' @ interpolate (city g))
           \<and> (\<forall>r c. region g = Some r \<and> city g = Some c \<longrightarrow>
                 ipGeo u' = Some (''India, '' @ r @ '', '' @ c))"
proof -
  have n: "\<not> list_ex (\<lambda>x. matches x [Field FfirebaseId (Eq userId)]) xs"
    using assms(4) by (simp add: no_match_firebaseId)
  have m: "matches u [Field FfirebaseId (Eq userId)]"
    using assms(5) by (simp add: matches_firebaseId)
  have "users (snd (getGeoByIp http civ ip userId d))
          = xs @ u\<lparr>ipGeo := Some (ipGeo_of g), lastIp := Some ip\<rparr> # ys"
    using assms(1,2,3) by (simp add: users_getGeoByIp updateOne_first [OF n m])
  then show ?thesis
    by (auto simp: ipGeo_of_def interpolate_def)
qed

text \<open>Claim C10 at work: an address in the United States is stored as one in India.\<close>

theorem getGeoByIp_ipGeo_fixed_prefix_witness:
  "ex_http ''8.8.8.8'' = Some geo_us \<and> country geo_us = Some ''US''
   \<and> map ipGeo (users (snd (getGeoByIp ex_http no_civic ''8.8.8.8'' (Some ''fa'') ex_db)))
       = [Some ''India, California, Mountain View'', None]"
  using getGeoByIp_ipGeo_fixed_prefix
      [of ex_http "''8.8.8.8''" geo_us "Some ''fa''" ex_db "[]" alice "[bob]" no_civic]
  by (auto simp: ex_http_def geo_us_def store_defs truthy_def interpolate_def)

section \<open>Presence tracking\<close>

lemma platformOnline_pull:
  "map platformOnline (updateOne q (pull_socket s) us) = map platformOnline us"
  by (induction us) (simp_all add: pull_socket_def)

text \<open>
  Claim C8. Take a user ID and a socket ID, both non-empty (with an empty one
  \<open>connected\<close> is skipped), and let no record placed before the user's hold an entry
  with the socket ID; this is so whenever no other record holds it, socket IDs being
  unique to a connection. Then \<open>connected\<close> followed at once by \<open>disconnected\<close> with
  the same socket ID leaves the user's \<open>activeSockets\<close> without an entry for it, while
  the counter of the platform keeps the increment of \<open>connected\<close>: \<open>disconnected\<close>
  changes no counter of any record.
\<close>

theorem connect_disconnect_first_holder:
  assumes "users d = xs @ u # ys"
    and "\<forall>x \<in> set xs. firebaseId x \<noteq> Some uid \<and> \<not> list_ex (\<lambda>a. socketid a = s) (sockets_of x)"
    and "firebaseId u = Some uid" and "uid \<noteq> []" and "s \<noteq> []"
  shows "users (disconnected s (connected now \<lparr>cd_user = uid, cd_socketid = s, cd_platform = p\<rparr> d))
           = xs @ u\<lparr>activeSockets := Some (filter (\<lambda>a. socketid a \<noteq> s) (sockets_of u)),
                    platformOnline := inc p (platformOnline u)\<rparr> # ys
       \<and> inc p (platformOnline u) p = Some (case platformOnline u p of None \<Rightarrow> 1 | Some n \<Rightarrow> n + 1)
       \<and> map platformOnline
           (users (disconnected s (connected now \<lparr>cd_user = uid, cd_socketid = s, cd_platform = p\<rparr> d)))
           = map platformOnline
               (users (connected now \<lparr>cd_user = uid, cd_socketid = s, cd_platform = p\<rparr> d))"
proof -
  let ?a = "\<lparr>socketid = s, platform = p, date = now\<rparr>"
  have n1: "\<not> list_ex (\<lambda>x. matches x [Field FfirebaseId (Eq (Some uid))]) xs"
    using assms(2) by (simp add: no_match_firebaseId)
  have m1: "matches u [Field FfirebaseId (Eq (Some uid))]"
    using assms(3) by (simp add: matches_firebaseId)
  have c: "users (connected now \<lparr>cd_user = uid, cd_socketid = s, cd_platform = p\<rparr> d)
             = xs @ push_socket ?a u # ys"
    using assms(1,4,5) by (simp add: connected_def Let_def log_def updateOne_first [OF n1 m1])
  have n2: "\<not> list_ex (\<lambda>x. matches x [ActiveSocketsSocketid s]) xs"
    using assms(2) by (simp add: list_ex_iff matches_socketid)
  have m: "matches (push_socket ?a u) [ActiveSocketsSocketid s]"
    by (simp add: matches_socketid push_socket_def sockets_of_def)
  have "users (disconnected s (connected now \<lparr>cd_user = uid, cd_socketid = s, cd_platform = p\<rparr> d))
          = xs @ pull_socket s (push_socket ?a u) # ys"
    by (simp add: disconnected_def log_def c updateOne_first [OF n2 m])
  moreover have "pull_socket s (push_socket ?a u)
      = u\<lparr>activeSockets := Some (filter (\<lambda>a. socketid a \<noteq> s) (sockets_of u)),
          platformOnline := inc p (platformOnline u)\<rparr>"
    by (simp add: pull_socket_def push_socket_def)
  ultimately have first: "users (disconnected s
        (connected now \<lparr>cd_user = uid, cd_socketid = s, cd_platform = p\<rparr> d))
      = xs @ u\<lparr>activeSockets := Some (filter (\<lambda>a. socketid a \<noteq> s) (sockets_of u)),
               platformOnline := inc p (platformOnline u)\<rparr> # ys"
    by simp
  have second: "inc p (platformOnline u) p
      = Some (case platformOnline u p of None \<Rightarrow> 1 | Some n \<Rightarrow> n + 1)"
    by (simp add: inc_def)
  have third: "map platformOnline (users (disconnected s d')) = map platformOnline (users d')" for d'
    by (simp add: disconnected_def log_def platformOnline_pull)
  from first second third show ?thesis
    by blast
qed

text \<open>
  Claim C8 at work: Alice connects on socket \<open>s1\<close> from the app and
  disconnects; her list is empty again and her app counter, absent before, is 1.
\<close>

theorem connect_disconnect_first_holder_witness:
  "map socket_ids (users (disconnected ''s1'' (connected 1 connect_a ex_db))) = [[], []]
   \<and> platformOnline alice App = None
   \<and> platformOnline (hd (users (disconnected ''s1'' (connected 1 connect_a ex_db)))) App = Some 1"
  using connect_disconnect_first_holder [of ex_db "[]" alice "[bob]" "''fa''" "''s1''" 1 App]
  by (simp add: store_defs connect_a_def socket_ids_def sockets_of_def inc_def)

text \<open>
  Claim C9. A call of \<open>connected\<close> with a non-empty user ID and socket ID appends
  one session record, carrying the user ID, the socket ID, the platform and the date.
  When no user document has that \<open>firebaseId\<close>, the session is stored all the same,
  its \<open>state\<close> absent, and the user collection is left as it was.
\<close>

theorem connected_session_without_user:
  assumes "cd_user data \<noteq> []" and "cd_socketid data \<noteq> []"
  shows "\<exists>st. sessions (connected now data d) =
           sessions d @ [\<lparr>s_user = cd_user data, s_socketid = cd_socketid data,
                           s_platform = cd_platform data, s_date = now, s_state = st\<rparr>]
         \<and> ((\<forall>u \<in> set (users d). firebaseId u \<noteq> Some (cd_user data)) \<longrightarrow>
               st = None \<and> users (connected now data d) = users d)"
proof (cases "\<forall>u \<in> set (users d). firebaseId u \<noteq> Some (cd_user data)")
  case True
  then have n: "\<not> list_ex (\<lambda>x. matches x [Field FfirebaseId (Eq (Some (cd_user data)))]) (users d)"
    by (simp add: no_match_firebaseId)
  have "state_of (findOne [Field FfirebaseId (Eq (Some (cd_user data)))] (users d)) = None"
    by (simp add: findOne_none [OF n] state_of_def)
  then show ?thesis
    using assms by (simp add: connected_def Let_def log_def updateOne_none [OF n])
next
  case False
  with assms show ?thesis
    by (auto simp: connected_def Let_def log_def)
qed

text \<open>Claim C9 at work: a connection for a user ID that no document has.\<close>

theorem connected_session_without_user_witness:
  "sessions (connected 7 \<lparr>cd_user = ''zz'', cd_socketid = ''s9'', cd_platform = Web\<rparr> ex_db)
     = [\<lparr>s_user = ''zz'', s_socketid = ''s9'', s_platform = Web, s_date = 7, s_state = None\<rparr>]
   \<and> users (connected 7 \<lparr>cd_user = ''zz'', cd_socketid = ''s9'', cd_platform = Web\<rparr> ex_db)
     = users ex_db"
  using connected_session_without_user
      [of "\<lparr>cd_user = ''zz'', cd_socketid = ''s9'', cd_platform = Web\<rparr>" 7 ex_db]
  by (auto simp: store_defs)

end
